theory Spec2Isabelle
  imports Complex_Main
begin

section \<open>Python values the program works with\<close>

text \<open>
  Paths and texts are strings. Every exception the program can meet is a value of
  \<open>exn\<close>; a fallible computation returns \<open>exn + 'a\<close> with \<open>Inl\<close> the raised exception.
  The program raises only \<open>RuntimeError\<close>, told apart by the message template; the
  argument of \<open>RuntimeError\<close> is that template with its fields (\<open>print.py\<close> lines
  78, 82 and 150, \<open>generate.py\<close> lines 62, 70, 79 and 118).
\<close>

type_synonym path = string

datatype exn =
    IndexError
  | KeyError
  | ValueError
  | FileNotFoundError
  | OSError
  | OtherError string
  | RuntimeError rt_message
and rt_message =
    PromoNotFound path
  | LabelNotFound path
  | SheetFailed exn
  | ArtifactsNotLoaded exn
  | NoValidText path
  | PredictionFailed path exn
  | NoInputFound

definition bind :: "exn + 'a \<Rightarrow> ('a \<Rightarrow> exn + 'b) \<Rightarrow> exn + 'b" where
  "bind m f = (case m of Inl e \<Rightarrow> Inl e | Inr x \<Rightarrow> f x)"

text \<open>\<open>d[k]\<close> on a dictionary written as a literal: the pairs in source order.\<close>

definition dict_get :: "('k \<times> 'v) list \<Rightarrow> 'k \<Rightarrow> exn + 'v" where
  "dict_get d k = (case map_of d k of None \<Rightarrow> Inl KeyError | Some v \<Rightarrow> Inr v)"

definition dict_has :: "('k \<times> 'v) list \<Rightarrow> 'k \<Rightarrow> bool" where
  "dict_has d k = (map_of d k \<noteq> None)"

text \<open>\<open>xs[0]\<close>.\<close>

definition first :: "'a list \<Rightarrow> exn + 'a" where
  "first xs = (case xs of [] \<Rightarrow> Inl IndexError | x # _ \<Rightarrow> Inr x)"

text \<open>
  \<open>range(a, b, s)\<close> for a positive step, the only kind the program uses
  (\<open>range(y_start, y_end, 3)\<close>).
\<close>

function py_range :: "int \<Rightarrow> int \<Rightarrow> int \<Rightarrow> int list" where
  "py_range a b s = (if 0 < s \<and> a < b then a # py_range (a + s) b s else [])"
  by pat_completeness auto
termination
  by (relation "measure (\<lambda>(a, b, s). nat (b - a))") auto

declare py_range.simps [simp del]

section \<open>Geometry: \<open>print.py\<close>, lines 84 to 108\<close>

text \<open>
  \<open>fitz.Rect(x0, y0, x1, y1)\<close>. Every coordinate the program writes is an integer
  literal, so the coordinates are integers here.
\<close>

record rect =
  x0 :: int
  y0 :: int
  x1 :: int
  y1 :: int

definition Rect :: "int \<Rightarrow> int \<Rightarrow> int \<Rightarrow> int \<Rightarrow> rect" where
  "Rect a b c d = \<lparr>x0 = a, y0 = b, x1 = c, y1 = d\<rparr>"

definition rect1 :: rect where
  "rect1 = Rect 6 10 297 410"

definition a5_rect1 :: rect where
  "a5_rect1 = Rect 0 0 297 420"

definition envio_rects :: "(string \<times> (string \<times> rect) list) list" where
  "envio_rects =
     [(''MercadoLibre'',
        [(''rect2'', Rect 30 140 297 600),
         (''a5_rect2'', Rect 297 10 595 440)]),
      (''CorreoArg'',
        [(''rect2'', Rect 50 57 305 490),
         (''a5_rect2'', Rect 297 10 595 440)])]"

text \<open>Lines 107 and 108: \<open>envio_rects[tipo_envio]["rect2"]\<close> and \<open>["a5_rect2"]\<close>.\<close>

definition rect2_of :: "string \<Rightarrow> exn + rect" where
  "rect2_of tipo_envio = bind (dict_get envio_rects tipo_envio) (\<lambda>d. dict_get d ''rect2'')"

definition a5_rect2_of :: "string \<Rightarrow> exn + rect" where
  "a5_rect2_of tipo_envio = bind (dict_get envio_rects tipo_envio) (\<lambda>d. dict_get d ''a5_rect2'')"

text \<open>The output sheet of line 125: \<open>new_page(width=595, height=420)\<close>.\<close>

definition sheet_width :: int where
  "sheet_width = 595"

definition sheet_height :: int where
  "sheet_height = 420"

text \<open>
  What the specification calls a rectangle that does not exceed the sheet: all four
  edges between the sheet's edges.
\<close>

definition within_sheet :: "rect \<Rightarrow> bool" where
  "within_sheet r \<longleftrightarrow>
     0 \<le> x0 r \<and> x0 r \<le> x1 r \<and> x1 r \<le> sheet_width \<and>
     0 \<le> y0 r \<and> y0 r \<le> y1 r \<and> y1 r \<le> sheet_height"

section \<open>Strings\<close>

text \<open>\<open>s.endswith(suffix)\<close>.\<close>

definition endswith :: "string \<Rightarrow> string \<Rightarrow> bool" where
  "endswith s suffix \<longleftrightarrow>
     length suffix \<le> length s \<and> drop (length s - length suffix) s = suffix"

text \<open>
  \<open>sep in s\<close>, \<open>s.split(sep, 1)\<close> and \<open>s.rsplit(sep, 1)\<close> for a separator of one
  character, the only kind the program uses (\<open>"-"\<close> and \<open>"."\<close>).
\<close>

definition char_in :: "char \<Rightarrow> string \<Rightarrow> bool" where
  "char_in c s \<longleftrightarrow> c \<in> set s"

definition split1 :: "char \<Rightarrow> string \<Rightarrow> string list" where
  "split1 c s =
     (if c \<in> set s
      then [takeWhile (\<lambda>x. x \<noteq> c) s, tl (dropWhile (\<lambda>x. x \<noteq> c) s)]
      else [s])"

definition rsplit1 :: "char \<Rightarrow> string \<Rightarrow> string list" where
  "rsplit1 c s =
     (if c \<in> set s
      then [rev (tl (dropWhile (\<lambda>x. x \<noteq> c) (rev s))), rev (takeWhile (\<lambda>x. x \<noteq> c) (rev s))]
      else [s])"

text \<open>
  \<open>s.strip()\<close>: the characters Python counts as whitespace, among the code points
  below 256.
\<close>

definition is_space :: "char \<Rightarrow> bool" where
  "is_space c \<longleftrightarrow>
     c \<in> set [CHR 0x09, CHR 0x0A, CHR 0x0B, CHR 0x0C, CHR 0x0D, CHR 0x1C, CHR 0x1D,
              CHR 0x1E, CHR 0x1F, CHR 0x20, CHR 0x85, CHR 0xA0]"

definition strip :: "string \<Rightarrow> string" where
  "strip s = rev (dropWhile is_space (rev (dropWhile is_space s)))"

text \<open>\<open>sep.join(xs)\<close>.\<close>

fun join :: "string \<Rightarrow> string list \<Rightarrow> string" where
  "join sep [] = []"
| "join sep [x] = x"
| "join sep (x # y # ys) = x @ sep @ join sep (y # ys)"

text \<open>\<open>p / name\<close> of pathlib and \<open>os.path.join(p, name)\<close>, for a relative name.\<close>

definition path_join :: "path \<Rightarrow> string \<Rightarrow> path" where
  "path_join p name = p @ ''/'' @ name"

text \<open>The first exception of a list of outcomes, or all the results.\<close>

fun sequence :: "(exn + 'a) list \<Rightarrow> exn + 'a list" where
  "sequence [] = Inr []"
| "sequence (Inl e # _) = Inl e"
| "sequence (Inr x # ms) = bind (sequence ms) (\<lambda>xs. Inr (x # xs))"

section \<open>Files, pages and the libraries\<close>

text \<open>
  What the program draws on a page of the output document, with the arguments as it
  passes them: \<open>insert_image(rect, stream=..., overlay=...)\<close> (the keyword is \<open>None\<close>
  where the call omits it), \<open>draw_line(p1, p2, color=..., width=...)\<close> and
  \<open>insert_image(rect, filename=...)\<close>.
\<close>

datatype drawing =
    Image rect "nat list" "bool option"
  | Line "int \<times> int" "int \<times> int" "int \<times> int \<times> int" rat
  | ImageFile rect path

record page =
  page_width :: int
  page_height :: int
  drawings :: "drawing list"

datatype file_data = PdfFile "page list" | OtherFile "nat list"

text \<open>The two messages \<open>generate_sheet\<close> prints (lines 104 and 147).\<close>

datatype message = TipoNotSupported string | PdfGenerated path

record state =
  files :: "path \<rightharpoonup> file_data"
  stdout :: "message list"

record pixmap =
  pix_n :: nat
  pix_width :: nat
  pix_height :: nat
  pix_samples :: "nat list"

type_synonym pil_image = "(nat \<times> nat) \<times> nat list"

datatype artifact = Artifact string

type_synonym features = "rat list list"

text \<open>The constructor arguments of \<open>TfidfVectorizer\<close> (\<open>train.py\<close>, line 107).\<close>

record tfidf_vectorizer =
  stop_words :: "string list"
  max_features :: "nat option"

text \<open>The calls on the output document that can raise without a result of interest.\<close>

datatype fitz_call =
    CallNewPage int int
  | CallInsertImage rect
  | CallDrawLine "int \<times> int" "int \<times> int"
  | CallInsertFile rect path
  | CallSave path

text \<open>
  The script's directory and the behaviour of the operating system and of the libraries
  (PyMuPDF, Pillow, pdfplumber, joblib, scikit-learn), which are not part of the program:
  every function below takes them as a parameter, and every theorem holds for all of them.
  A page as pdfplumber gives it is the outcome of its \<open>extract_text()\<close>.
\<close>

record env =
  BASE_DIR :: path
  listdir :: "path \<Rightarrow> exn + string list"
  read_lines :: "path \<Rightarrow> exn + string list"
  plumber_open :: "path \<Rightarrow> exn + (exn + string option) list"
  joblib_load :: "path \<Rightarrow> exn + artifact"
  transform :: "artifact \<Rightarrow> string list \<Rightarrow> exn + features"
  predict :: "artifact \<Rightarrow> features \<Rightarrow> exn + nat list"
  inverse_transform :: "artifact \<Rightarrow> nat list \<Rightarrow> exn + string list"
  fit_transform :: "tfidf_vectorizer \<Rightarrow> string list \<Rightarrow> exn + features"
  fitz_open :: "file_data \<Rightarrow> exn + page list"
  get_pixmap :: "page \<Rightarrow> rat \<times> rat \<Rightarrow> rect \<Rightarrow> exn + pixmap"
  to_rgb :: "pixmap \<Rightarrow> exn + pixmap"
  frombytes :: "nat \<times> nat \<Rightarrow> nat list \<Rightarrow> exn + pil_image"
  jpeg_save :: "pil_image \<Rightarrow> int \<Rightarrow> exn + nat list"
  fitz_fault :: "fitz_call \<Rightarrow> exn option"

text \<open>\<open>cfg.py\<close>.\<close>

definition DATA_PATH :: "env \<Rightarrow> path" where
  "DATA_PATH E = path_join (BASE_DIR E) ''data''"

definition MODEL_PATH :: "env \<Rightarrow> path" where
  "MODEL_PATH E = path_join (BASE_DIR E) ''model''"

definition TEMP_PATH :: "env \<Rightarrow> path" where
  "TEMP_PATH E = path_join (BASE_DIR E) ''tmp''"

definition OUT_PATH :: "env \<Rightarrow> path" where
  "OUT_PATH E = path_join (BASE_DIR E) ''out''"

section \<open>\<open>print.py\<close>\<close>

text \<open>
  \<open>extract_high_res_image(page, rect, dpi, quality)\<close>, lines 30 to 60. The zoom is the
  exact quotient \<open>dpi / 72\<close>. The function has no check of its own: the rectangle goes to
  \<open>get_pixmap\<close> as the clip, unchanged.
\<close>

definition extract_high_res_image :: "env \<Rightarrow> page \<Rightarrow> rect \<Rightarrow> int \<Rightarrow> int \<Rightarrow> exn + nat list" where
  "extract_high_res_image E pg rect dpi quality =
     (let zoom = of_int dpi / 72; mat = (zoom, zoom) in
      bind (get_pixmap E pg mat rect) (\<lambda>pix.
      bind (if pix_n pix > 3 then to_rgb E pix else Inr pix) (\<lambda>pix.
      bind (frombytes E (pix_width pix, pix_height pix) (pix_samples pix)) (\<lambda>img_pil.
      jpeg_save E img_pil quality))))"

definition os_path_exists :: "state \<Rightarrow> path \<Rightarrow> bool" where
  "os_path_exists s p \<longleftrightarrow> files s p \<noteq> None"

text \<open>\<open>os.remove(p)\<close>.\<close>

definition os_remove :: "path \<Rightarrow> state \<Rightarrow> exn + state" where
  "os_remove p s =
     (if files s p = None then Inl FileNotFoundError
      else Inr (s\<lparr>files := (files s)(p := None)\<rparr>))"

definition print :: "message \<Rightarrow> state \<Rightarrow> state" where
  "print m s = s\<lparr>stdout := stdout s @ [m]\<rparr>"

text \<open>\<open>fitz.open(path)\<close>.\<close>

definition open_document :: "env \<Rightarrow> state \<Rightarrow> path \<Rightarrow> exn + page list" where
  "open_document E s p =
     (case files s p of None \<Rightarrow> Inl FileNotFoundError | Some f \<Rightarrow> fitz_open E f)"

definition attempt :: "env \<Rightarrow> fitz_call \<Rightarrow> 'a \<Rightarrow> exn + 'a" where
  "attempt E c v = (case fitz_fault E c of Some e \<Rightarrow> Inl e | None \<Rightarrow> Inr v)"

definition new_page :: "env \<Rightarrow> int \<Rightarrow> int \<Rightarrow> exn + page" where
  "new_page E w h =
     attempt E (CallNewPage w h) \<lparr>page_width = w, page_height = h, drawings = []\<rparr>"

definition insert_image :: "env \<Rightarrow> page \<Rightarrow> rect \<Rightarrow> nat list \<Rightarrow> bool option \<Rightarrow> exn + page" where
  "insert_image E pg r stream overlay =
     attempt E (CallInsertImage r) (pg\<lparr>drawings := drawings pg @ [Image r stream overlay]\<rparr>)"

definition insert_image_file :: "env \<Rightarrow> page \<Rightarrow> rect \<Rightarrow> path \<Rightarrow> exn + page" where
  "insert_image_file E pg r filename =
     attempt E (CallInsertFile r filename) (pg\<lparr>drawings := drawings pg @ [ImageFile r filename]\<rparr>)"

definition draw_line ::
  "env \<Rightarrow> page \<Rightarrow> int \<times> int \<Rightarrow> int \<times> int \<Rightarrow> int \<times> int \<times> int \<Rightarrow> rat \<Rightarrow> exn + page" where
  "draw_line E pg p1 p2 color width =
     attempt E (CallDrawLine p1 p2) (pg\<lparr>drawings := drawings pg @ [Line p1 p2 color width]\<rparr>)"

text \<open>\<open>doc.save(path)\<close>: the whole document or, when it raises, nothing.\<close>

definition save :: "env \<Rightarrow> page list \<Rightarrow> path \<Rightarrow> state \<Rightarrow> exn + state" where
  "save E doc p s = attempt E (CallSave p) (s\<lparr>files := (files s)(p \<mapsto> PdfFile doc)\<rparr>)"

definition x_middle :: int where
  "x_middle = 297"

definition y_start :: int where
  "y_start = 1"

definition y_end :: int where
  "y_end = 419"

text \<open>The loop of lines 134 to 137.\<close>

fun draw_lines :: "env \<Rightarrow> page \<Rightarrow> int list \<Rightarrow> exn + page" where
  "draw_lines E pg [] = Inr pg"
| "draw_lines E pg (y # ys) =
     bind (draw_line E pg (x_middle, y) (x_middle, y + 2) (0, 0, 0) (1 / 2))
       (\<lambda>pg'. draw_lines E pg' ys)"

text \<open>
  Lines 112 to 143: the page of the new document \<open>doc_final\<close>, which \<open>fitz.open()\<close>
  creates empty and to which \<open>new_page\<close> adds its only page.
\<close>

definition compose_page :: "env \<Rightarrow> state \<Rightarrow> path \<Rightarrow> path \<Rightarrow> rect \<Rightarrow> rect \<Rightarrow> exn + page" where
  "compose_page E s pdf1_path label_envio rect2 a5_rect2 =
     bind (open_document E s pdf1_path) (\<lambda>doc1.
     bind (first doc1) (\<lambda>page1.
     bind (extract_high_res_image E page1 rect1 260 75) (\<lambda>stream1.
     bind (open_document E s label_envio) (\<lambda>doc2.
     bind (first doc2) (\<lambda>page2.
     bind (extract_high_res_image E page2 rect2 260 75) (\<lambda>stream2.
     bind (new_page E 595 420) (\<lambda>pg.
     bind (insert_image E pg a5_rect1 stream1 None) (\<lambda>pg.
     bind (insert_image E pg a5_rect2 stream2 (Some True)) (\<lambda>pg.
     bind (draw_lines E pg (py_range y_start y_end 3)) (\<lambda>pg.
     (let tijera_path = path_join (DATA_PATH E) ''tijera.png'' in
      if os_path_exists s tijera_path
      then insert_image_file E pg (Rect (x_middle - 6) (y_end - 18) (x_middle + 6) y_end) tijera_path
      else Inr pg)))))))))))"

text \<open>The body of the \<open>try\<close>, lines 111 to 147.\<close>

definition try_body ::
  "env \<Rightarrow> state \<Rightarrow> path \<Rightarrow> path \<Rightarrow> rect \<Rightarrow> rect \<Rightarrow> path \<Rightarrow> (exn + unit) \<times> state" where
  "try_body E s pdf1_path label_envio rect2 a5_rect2 output_file =
     (case compose_page E s pdf1_path label_envio rect2 a5_rect2 of
        Inl e \<Rightarrow> (Inl e, s)
      | Inr pg \<Rightarrow>
          (case save E ([] @ [pg]) output_file s of
             Inl e \<Rightarrow> (Inl e, s)
           | Inr s' \<Rightarrow> (Inr (), print (PdfGenerated output_file) s')))"

text \<open>
  \<open>generate_sheet(tipo_envio, label_envio, output_file)\<close>, lines 63 to 154. The result
  is the returned value: \<open>Some False\<close> is \<open>False\<close> and \<open>None\<close> is Python's \<open>None\<close>,
  which the function returns when it reaches its end. The \<open>finally\<close> clause runs after
  the \<open>try\<close> and its \<open>except\<close>, and an exception of its own replaces theirs.
\<close>

definition generate_sheet ::
  "env \<Rightarrow> state \<Rightarrow> string \<Rightarrow> path \<Rightarrow> path \<Rightarrow> (exn + bool option) \<times> state" where
  "generate_sheet E s tipo_envio label_envio output_file =
     (let pdf1_path = path_join (TEMP_PATH E) ''interm.pdf'' in
      if \<not> os_path_exists s pdf1_path then (Inl (RuntimeError (PromoNotFound pdf1_path)), s)
      else if \<not> os_path_exists s label_envio then (Inl (RuntimeError (LabelNotFound label_envio)), s)
      else if \<not> dict_has envio_rects tipo_envio
      then (Inr (Some False), print (TipoNotSupported tipo_envio) s)
      else
        (case rect2_of tipo_envio of
           Inl e \<Rightarrow> (Inl e, s)
         | Inr rect2 \<Rightarrow>
             (case a5_rect2_of tipo_envio of
                Inl e \<Rightarrow> (Inl e, s)
              | Inr a5_rect2 \<Rightarrow>
                  (let (r, s1) = try_body E s pdf1_path label_envio rect2 a5_rect2 output_file;
                       r' = (case r of
                               Inl e \<Rightarrow> Inl (RuntimeError (SheetFailed e))
                             | Inr _ \<Rightarrow> Inr None)
                   in case os_remove pdf1_path s1 of
                        Inl e \<Rightarrow> (Inl e, s1)
                      | Inr s2 \<Rightarrow> (r', s2)))))"

text \<open>
  The path of the promo document, \<open>TEMP_PATH / "interm.pdf"\<close> (line 76), and what the
  theorems below read off a page and a state: the line segments drawn on a page, one
  segment of the cut guide as line 135 draws it, and the pages of a saved document.
\<close>

definition interm_pdf :: "env \<Rightarrow> path" where
  "interm_pdf E = path_join (TEMP_PATH E) ''interm.pdf''"

fun is_line :: "drawing \<Rightarrow> bool" where
  "is_line (Line p1 p2 color width) = True"
| "is_line _ = False"

definition segment :: "int \<Rightarrow> drawing" where
  "segment y = Line (x_middle, y) (x_middle, y + 2) (0, 0, 0) (1 / 2)"

definition cut_guide :: "page \<Rightarrow> drawing list" where
  "cut_guide pg = filter is_line (drawings pg)"

definition saved_pages :: "state \<Rightarrow> path \<Rightarrow> page list" where
  "saved_pages s p = (case files s p of Some (PdfFile ps) \<Rightarrow> ps | _ \<Rightarrow> [])"

section \<open>\<open>generate.py\<close>\<close>

fun is_os_error :: "exn \<Rightarrow> bool" where
  "is_os_error FileNotFoundError = True"
| "is_os_error OSError = True"
| "is_os_error _ = False"

text \<open>Lines 57 to 62: the three loads and the handler of \<open>FileNotFoundError\<close> and \<open>OSError\<close>.\<close>

definition load_artifacts :: "env \<Rightarrow> exn + artifact \<times> artifact \<times> artifact" where
  "load_artifacts E =
     (case bind (joblib_load E (path_join (MODEL_PATH E) ''modelo_svm.pkl'')) (\<lambda>model.
           bind (joblib_load E (path_join (MODEL_PATH E) ''vectorizer.pkl'')) (\<lambda>vectorizer.
           bind (joblib_load E (path_join (MODEL_PATH E) ''label_encoder.pkl'')) (\<lambda>label_encoder.
           Inr (model, vectorizer, label_encoder)))) of
        Inl e \<Rightarrow> if is_os_error e then Inl (RuntimeError (ArtifactsNotLoaded e)) else Inl e
      | Inr a \<Rightarrow> Inr a)"

text \<open>\<open>filter(None, texts)\<close>: the texts that are neither \<open>None\<close> nor empty.\<close>

fun filter_none :: "string option list \<Rightarrow> string list" where
  "filter_none [] = []"
| "filter_none (None # ts) = filter_none ts"
| "filter_none (Some t # ts) = (if t = [] then filter_none ts else t # filter_none ts)"

text \<open>Lines 65 and 66.\<close>

definition joined_text :: "env \<Rightarrow> path \<Rightarrow> exn + string" where
  "joined_text E pdf_path =
     bind (plumber_open E pdf_path) (\<lambda>pages.
     bind (sequence pages) (\<lambda>texts.
     Inr (join '' '' (filter_none texts))))"

text \<open>\<open>predict_pdf(pdf_path)\<close>, lines 55 to 79.\<close>

definition predict_pdf :: "env \<Rightarrow> path \<Rightarrow> exn + string" where
  "predict_pdf E pdf_path =
     (case
        bind (load_artifacts E) (\<lambda>(model, vectorizer, label_encoder).
        bind (joined_text E pdf_path) (\<lambda>text.
        (let clean_text = strip text in
         if clean_text = [] then Inl (RuntimeError (NoValidText pdf_path))
         else
           bind (transform E vectorizer [clean_text]) (\<lambda>X_new.
           bind (predict E model X_new) (\<lambda>pred.
           bind (inverse_transform E label_encoder pred) (\<lambda>labels.
           first labels)))))) of
        Inl e \<Rightarrow> Inl (RuntimeError (PredictionFailed pdf_path e))
      | Inr tipo \<Rightarrow> Inr tipo)"

text \<open>
  The first step of \<open>generar_etiqueta\<close>, lines 116 to 124: the file chosen, the two
  tokens, and the two paths built from them.
\<close>

definition is_input_name :: "string \<Rightarrow> bool" where
  "is_input_name f \<longleftrightarrow> endswith f ''.pdf'' \<and> char_in (CHR ''-'') f"

definition discover :: "env \<Rightarrow> exn + (string \<times> string \<times> string \<times> path \<times> path)" where
  "discover E =
     bind (listdir E (BASE_DIR E)) (\<lambda>names.
     (let pdf_files = filter is_input_name names in
      if pdf_files = [] then Inl (RuntimeError NoInputFound)
      else
        bind (first pdf_files) (\<lambda>file.
        bind (first (rsplit1 (CHR ''.'') file)) (\<lambda>stem.
        (case split1 (CHR ''-'') stem of
           [medio_venta, num_orden] \<Rightarrow>
             Inr (file, medio_venta, num_orden,
                  path_join (BASE_DIR E) file,
                  path_join (OUT_PATH E) (medio_venta @ num_orden @ ''.pdf''))
         | _ \<Rightarrow> Inl ValueError)))))"

section \<open>\<open>train.py\<close>\<close>











text \<open>
  What the specification calls a rectangle within the page's bounds, for the region
  extractor.
\<close>

definition within_page :: "page \<Rightarrow> rect \<Rightarrow> bool" where
  "within_page pg r \<longleftrightarrow>
     0 \<le> x0 r \<and> x0 r \<le> x1 r \<and> x1 r \<le> page_width pg \<and>
     0 \<le> y0 r \<and> y0 r \<le> y1 r \<and> y1 r \<le> page_height pg"

section \<open>A sample environment\<close>

text \<open>
  One concrete directory, set of documents and behaviour of the libraries, on which the
  functions above can be run. Its renderer does what PyMuPDF documents for \<open>clip\<close>:
  it renders the intersection of the rectangle with the page.
\<close>

definition sample_get_pixmap :: "page \<Rightarrow> rat \<times> rat \<Rightarrow> rect \<Rightarrow> exn + pixmap" where
  "sample_get_pixmap pg mat r =
     (let cx0 = max 0 (x0 r); cx1 = min (page_width pg) (x1 r);
          cy0 = max 0 (y0 r); cy1 = min (page_height pg) (y1 r)
      in Inr \<lparr>pix_n = 3,
              pix_width = nat \<lfloor>fst mat * of_int (cx1 - cx0)\<rfloor>,
              pix_height = nat \<lfloor>snd mat * of_int (cy1 - cy0)\<rfloor>,
              pix_samples = []\<rparr>)"

definition sample_listdir :: "path \<Rightarrow> exn + string list" where
  "sample_listdir p =
     (if p = ''/app'' then Inr [''notes.txt'', ''meli-123456.pdf'', ''correo-987654.pdf'']
      else if p = ''/app/data/labelsMl'' then Inr [''a.pdf'', ''blank.pdf'', ''readme.txt'']
      else if p = ''/app/data/labelsCorreoArg'' then Inr [''c.pdf'']
      else Inl FileNotFoundError)"

definition sample_plumber_open :: "path \<Rightarrow> exn + (exn + string option) list" where
  "sample_plumber_open p =
     (if p = ''/app/meli-123456.pdf'' then Inr [Inr (Some ''Mercado Envios'')]
      else if p = ''/app/data/labelsMl/a.pdf'' then Inr [Inr (Some ''Mercado Envios''), Inr None]
      else if p = ''/app/data/labelsMl/blank.pdf'' then Inr [Inr (Some '' ''), Inr None, Inr (Some [])]
      else if p = ''/app/data/labelsCorreoArg/c.pdf'' then Inr [Inr (Some ''Correo Argentino'')]
      else if p = ''/app/scan-1.pdf'' then Inr [Inr None, Inr (Some '' '')]
      else Inl FileNotFoundError)"

definition sample_env :: env where
  "sample_env =
     \<lparr>BASE_DIR = ''/app'',
      listdir = sample_listdir,
      read_lines = (\<lambda>p. if p = ''/app/model/custom_stopwords.txt''
                          then Inr [''de'' @ [CHR 0x0A], [CHR 0x0A], '' la '' @ [CHR 0x0A]]
                          else Inl FileNotFoundError),
      plumber_open = sample_plumber_open,
      joblib_load = (\<lambda>p. Inr (Artifact p)),
      transform = (\<lambda>a texts. Inr (map (\<lambda>t. [of_nat (length t)]) texts)),
      predict = (\<lambda>a X. Inr (map (\<lambda>row. 0) X)),
      inverse_transform =
        (\<lambda>a ys. Inr (map (\<lambda>y. if y = 0 then ''MercadoLibre'' else ''CorreoArg'') ys)),
      fit_transform = (\<lambda>v texts. Inr (map (\<lambda>t. [of_nat (length t)]) texts)),
      fitz_open = (\<lambda>f. case f of PdfFile ps \<Rightarrow> Inr ps | OtherFile b \<Rightarrow> Inl (OtherError ''no PDF'')),
      get_pixmap = sample_get_pixmap,
      to_rgb = (\<lambda>pix. Inr (pix\<lparr>pix_n := 3\<rparr>)),
      frombytes = (\<lambda>size samples. Inr (size, samples)),
      jpeg_save = (\<lambda>img quality. Inr [fst (fst img), snd (fst img)]),
      fitz_fault = (\<lambda>c. None)\<rparr>"

definition a4_page :: page where
  "a4_page = \<lparr>page_width = 595, page_height = 842, drawings = []\<rparr>"

definition sample_files :: "path \<rightharpoonup> file_data" where
  "sample_files =
     [''/app/tmp/interm.pdf'' \<mapsto> PdfFile [a4_page],
      ''/app/meli-123456.pdf'' \<mapsto> PdfFile [a4_page]]"

definition sample_state :: state where
  "sample_state = \<lparr>files = sample_files, stdout = []\<rparr>"

definition sample_label :: path where
  "sample_label = ''/app/meli-123456.pdf''"

definition sample_output :: path where
  "sample_output = ''/app/out/meli123456.pdf''"

text \<open>The sheet that the sample run composes.\<close>

definition sample_sheet :: page where
  "sample_sheet =
     \<lparr>page_width = 595, page_height = 420,
      drawings = [Image a5_rect1 [1050, 1444] None,
                  Image (Rect 297 10 595 440) [964, 1661] (Some True)] @
                 map segment (py_range y_start y_end 3)\<rparr>"

text \<open>The same directory before \<open>flyer.py\<close> has run: no \<open>tmp/interm.pdf\<close>.\<close>

definition state_without_promo :: state where
  "state_without_promo = \<lparr>files = [''/app/meli-123456.pdf'' \<mapsto> PdfFile [a4_page]], stdout = []\<rparr>"

text \<open>The same environment with no model file on disk.\<close>

definition env_without_model :: env where
  "env_without_model = sample_env\<lparr>joblib_load := (\<lambda>p. Inl FileNotFoundError)\<rparr>"

text \<open>The same environment with no input document in the base directory.\<close>

definition env_without_input :: env where
  "env_without_input = sample_env\<lparr>listdir := (\<lambda>p. Inr [''notes.txt'', ''flyer.pdf'', ''a-b.txt''])\<rparr>"

text \<open>The sample directory with a promo document that has no page.\<close>

definition state_empty_promo :: state where
  "state_empty_promo =
     \<lparr>files = [''/app/tmp/interm.pdf'' \<mapsto> PdfFile [], ''/app/meli-123456.pdf'' \<mapsto> PdfFile [a4_page]],
      stdout = []\<rparr>"

text \<open>The sample environment with a renderer that raises.\<close>

definition env_failing_render :: env where
  "env_failing_render = sample_env\<lparr>get_pixmap := (\<lambda>pg mat r. Inl (OtherError ''render''))\<rparr>"

section \<open>Helper facts\<close>

lemma bind_InrE:
  assumes "bind m f = Inr y"
  obtains x where "m = Inr x" and "f x = Inr y"
  using assms by (cases m) (auto simp: bind_def)

lemma bind_Inr [simp]: "bind (Inr x) f = f x"
  by (simp add: bind_def)

lemma bind_Inl [simp]: "bind (Inl e) f = Inl e"
  by (simp add: bind_def)

lemma floor_rat_numeral:
  "\<lfloor>numeral a / (numeral b :: rat)\<rfloor> = numeral a div numeral b"
proof -
  have "\<lfloor>rat_of_int (numeral a) / rat_of_int (numeral b)\<rfloor> = numeral a div numeral b"
    by (rule floor_divide_of_int_eq)
  then show ?thesis by simp
qed

lemma py_range_length:
  "0 < s \<Longrightarrow> length (py_range a b s) = nat ((b - a + s - 1) div s)"
proof (induction a b s rule: py_range.induct)
  case (1 a b s)
  show ?case
  proof (cases "a < b")
    case True
    with 1 have IH: "length (py_range (a + s) b s) = nat ((b - (a + s) + s - 1) div s)"
      by simp
    have e1: "b - a + s - 1 = (b - a - 1) + s" and e2: "b - (a + s) + s - 1 = b - a - 1"
      by simp_all
    have "((b - a - 1) + s) div s = (b - a - 1) div s + 1"
      using 1(2) by (subst div_add_self2) simp_all
    then have "(b - a + s - 1) div s = (b - (a + s) + s - 1) div s + 1"
      unfolding e1 e2 .
    moreover have "0 \<le> (b - (a + s) + s - 1) div s"
      using True 1(2) by (simp add: pos_imp_zdiv_nonneg_iff)
    ultimately show ?thesis
      using True 1(2) IH by (subst py_range.simps) (simp add: nat_add_distrib)
  next
    case False
    have "(b - a + s - 1) div s \<le> 0"
    proof (cases "b - a + s - 1 < 0")
      case True
      then show ?thesis
        using 1(2) by (simp add: pos_imp_zdiv_neg_iff less_imp_le)
    next
      case nonneg: False
      with False have "(b - a + s - 1) div s = 0"
        by (intro div_pos_pos_trivial) simp_all
      then show ?thesis by simp
    qed
    with False show ?thesis
      by (subst py_range.simps) simp
  qed
qed

lemma cut_guide_count: "length (py_range y_start y_end 3) = 140"
  by (simp add: py_range_length y_start_def y_end_def)

section \<open>The geometry registry\<close>

lemma envio_rects_cases:
  assumes "map_of envio_rects k = Some d"
  shows "(k = ''MercadoLibre'' \<and>
            d = [(''rect2'', Rect 30 140 297 600), (''a5_rect2'', Rect 297 10 595 440)]) \<or>
         (k = ''CorreoArg'' \<and>
            d = [(''rect2'', Rect 50 57 305 490), (''a5_rect2'', Rect 297 10 595 440)])"
  using assms by (auto simp: envio_rects_def split: if_splits)

lemma dict_has_envio_rects:
  "dict_has envio_rects k \<longleftrightarrow> k = ''MercadoLibre'' \<or> k = ''CorreoArg''"
  by (auto simp: dict_has_def envio_rects_def)

lemma registry_MercadoLibre:
  "dict_get envio_rects ''MercadoLibre'' =
     Inr [(''rect2'', Rect 30 140 297 600), (''a5_rect2'', Rect 297 10 595 440)]"
  "rect2_of ''MercadoLibre'' = Inr (Rect 30 140 297 600)"
  "a5_rect2_of ''MercadoLibre'' = Inr (Rect 297 10 595 440)"
  by (simp_all add: rect2_of_def a5_rect2_of_def bind_def dict_get_def envio_rects_def)

lemma registry_CorreoArg:
  "dict_get envio_rects ''CorreoArg'' =
     Inr [(''rect2'', Rect 50 57 305 490), (''a5_rect2'', Rect 297 10 595 440)]"
  "rect2_of ''CorreoArg'' = Inr (Rect 50 57 305 490)"
  "a5_rect2_of ''CorreoArg'' = Inr (Rect 297 10 595 440)"
  by (simp_all add: rect2_of_def a5_rect2_of_def bind_def dict_get_def envio_rects_def)

text \<open>
  C1, as the claim states it, fails: the label destination of MercadoLibre is
  (297, 10, 595, 440), whose lower edge 440 is beyond the sheet's height 420.
\<close>

theorem C1_label_destination_exceeds_sheet:
  "a5_rect2_of ''MercadoLibre'' = Inr (Rect 297 10 595 440) \<and>
   \<not> within_sheet (Rect 297 10 595 440)"
  by (simp add: registry_MercadoLibre within_sheet_def Rect_def sheet_height_def)

text \<open>
  C1, amended: every key of the registry has an entry with exactly one source rectangle
  (\<open>rect2\<close>) and one destination rectangle (\<open>a5_rect2\<close>), which lines 107 and 108 read
  without error; the promo destination lies within the 595 by 420 sheet; the label
  destination lies within the sheet from left to right and starts inside it, and its
  lower edge is 20 units beyond the sheet's height.
\<close>

theorem C1_registry_entries:
  assumes "dict_has envio_rects k"
  shows "\<exists>src dst.
           dict_get envio_rects k = Inr [(''rect2'', src), (''a5_rect2'', dst)] \<and>
           rect2_of k = Inr src \<and> a5_rect2_of k = Inr dst \<and>
           within_sheet a5_rect1 \<and>
           0 \<le> x0 dst \<and> x0 dst \<le> x1 dst \<and> x1 dst \<le> sheet_width \<and>
           0 \<le> y0 dst \<and> y0 dst \<le> sheet_height \<and> y1 dst = sheet_height + 20"
proof -
  have promo: "within_sheet a5_rect1"
    by (simp add: within_sheet_def a5_rect1_def Rect_def sheet_width_def sheet_height_def)
  from assms consider "k = ''MercadoLibre''" | "k = ''CorreoArg''"
    by (auto simp: dict_has_envio_rects)
  then show ?thesis
  proof cases
    case 1
    then show ?thesis
      using promo by (simp add: registry_MercadoLibre Rect_def sheet_width_def sheet_height_def)
  next
    case 2
    then show ?thesis
      using promo by (simp add: registry_CorreoArg Rect_def sheet_width_def sheet_height_def)
  qed
qed

theorem C1_registry_entries_witness:
  "dict_has envio_rects ''CorreoArg'' \<and>
   (\<exists>src dst.
      dict_get envio_rects ''CorreoArg'' = Inr [(''rect2'', src), (''a5_rect2'', dst)] \<and>
      rect2_of ''CorreoArg'' = Inr src \<and> a5_rect2_of ''CorreoArg'' = Inr dst \<and>
      within_sheet a5_rect1 \<and>
      0 \<le> x0 dst \<and> x0 dst \<le> x1 dst \<and> x1 dst \<le> sheet_width \<and>
      0 \<le> y0 dst \<and> y0 dst \<le> sheet_height \<and> y1 dst = sheet_height + 20)"
proof -
  have h: "dict_has envio_rects ''CorreoArg''"
    by (simp add: dict_has_envio_rects)
  show ?thesis
    using h C1_registry_entries [OF h] by simp
qed

text \<open>
  C10: for every key of the registry the label destination is the rectangle
  (297, 10, 595, 440); the source rectangles of the two keys differ.
\<close>

theorem C10_label_destination_fixed:
  "(dict_has envio_rects k \<longrightarrow> a5_rect2_of k = Inr (Rect 297 10 595 440)) \<and>
   rect2_of ''MercadoLibre'' \<noteq> rect2_of ''CorreoArg''"
  by (auto simp: dict_has_envio_rects registry_MercadoLibre registry_CorreoArg Rect_def)

theorem C10_label_destination_fixed_witness:
  "dict_has envio_rects ''MercadoLibre'' \<and>
   a5_rect2_of ''MercadoLibre'' = Inr (Rect 297 10 595 440)"
proof -
  have h: "dict_has envio_rects ''MercadoLibre''"
    by (simp add: dict_has_envio_rects)
  show ?thesis
    using h C10_label_destination_fixed [of "''MercadoLibre''"] by simp
qed

section \<open>The sheet composer\<close>

lemma attempt_InrD: "attempt E c v = Inr w \<Longrightarrow> w = v"
  by (auto simp: attempt_def split: option.splits)

lemma draw_lines_Inr:
  "draw_lines E pg ys = Inr pg' \<Longrightarrow>
     pg' = pg\<lparr>drawings := drawings pg @ map segment ys\<rparr>"
proof (induction ys arbitrary: pg)
  case Nil
  then show ?case by simp
next
  case (Cons y ys)
  from Cons.prems obtain pg1 where
    a: "draw_line E pg (x_middle, y) (x_middle, y + 2) (0, 0, 0) (1 / 2) = Inr pg1"
    and b: "draw_lines E pg1 ys = Inr pg'"
    by (auto elim: bind_InrE)
  from a have "pg1 = pg\<lparr>drawings := drawings pg @ [segment y]\<rparr>"
    by (auto simp: draw_line_def segment_def dest: attempt_InrD)
  with Cons.IH [OF b] show ?case by simp
qed

lemma draw_lines_no_fault:
  "(\<And>c. fitz_fault E c = None) \<Longrightarrow>
     draw_lines E pg ys = Inr (pg\<lparr>drawings := drawings pg @ map segment ys\<rparr>)"
  by (induction ys arbitrary: pg) (simp_all add: draw_line_def attempt_def segment_def)

lemma filter_is_line_segments [simp]: "filter is_line (map segment ys) = map segment ys"
  by (induction ys) (simp_all add: segment_def)

lemma compose_page_Inr:
  assumes "compose_page E s pdf1_path label_envio rect2 a5_rect2 = Inr pg"
  shows "page_width pg = 595 \<and> page_height pg = 420 \<and>
         filter is_line (drawings pg) = map segment (py_range y_start y_end 3)"
proof -
  from assms obtain stream1 stream2 pg0 pg1 pg2 pg3 where
    np: "new_page E 595 420 = Inr pg0"
    and i1: "insert_image E pg0 a5_rect1 stream1 None = Inr pg1"
    and i2: "insert_image E pg1 a5_rect2 stream2 (Some True) = Inr pg2"
    and dl: "draw_lines E pg2 (py_range y_start y_end 3) = Inr pg3"
    and last: "(let tijera_path = path_join (DATA_PATH E) ''tijera.png'' in
      if os_path_exists s tijera_path
      then insert_image_file E pg3 (Rect (x_middle - 6) (y_end - 18) (x_middle + 6) y_end) tijera_path
      else Inr pg3) = Inr pg"
    unfolding compose_page_def by (elim bind_InrE) blast
  from np have 0: "pg0 = \<lparr>page_width = 595, page_height = 420, drawings = []\<rparr>"
    by (auto simp: new_page_def dest: attempt_InrD)
  from i1 have 1: "pg1 = pg0\<lparr>drawings := drawings pg0 @ [Image a5_rect1 stream1 None]\<rparr>"
    by (auto simp: insert_image_def dest: attempt_InrD)
  from i2 have 2: "pg2 = pg1\<lparr>drawings := drawings pg1 @ [Image a5_rect2 stream2 (Some True)]\<rparr>"
    by (auto simp: insert_image_def dest: attempt_InrD)
  note 3 = draw_lines_Inr [OF dl]
  from last have "pg = pg3 \<or> (\<exists>r p. pg = pg3\<lparr>drawings := drawings pg3 @ [ImageFile r p]\<rparr>)"
    by (auto simp: Let_def insert_image_file_def split: if_splits dest: attempt_InrD)
  then show ?thesis
    using 0 1 2 3 by auto
qed

lemma try_body_cases:
  assumes "try_body E s p l r2 a5 out = (r, s1)"
  shows "(r = Inr () \<and>
           (\<exists>pg. compose_page E s p l r2 a5 = Inr pg \<and>
                 s1 = \<lparr>files = (files s)(out \<mapsto> PdfFile [pg]),
                       stdout = stdout s @ [PdfGenerated out]\<rparr>)) \<or>
         ((\<exists>e. r = Inl e) \<and> s1 = s)"
  using assms
  by (auto simp: try_body_def save_def attempt_def print_def
           split: sum.splits option.splits)

lemma try_body_keeps:
  assumes "try_body E s p l r2 a5 out = (r, s1)" and "files s q \<noteq> None"
  shows "files s1 q \<noteq> None"
  using try_body_cases [OF assms(1)] assms(2) by auto

lemma generate_sheet_known:
  assumes "os_path_exists s (interm_pdf E)" and "os_path_exists s label"
    and "rect2_of tipo = Inr r2" and "a5_rect2_of tipo = Inr a5" and "dict_has envio_rects tipo"
    and "try_body E s (interm_pdf E) label r2 a5 out = (r, s1)"
  shows "generate_sheet E s tipo label out =
           ((case r of Inl e \<Rightarrow> Inl (RuntimeError (SheetFailed e)) | Inr u \<Rightarrow> Inr None),
            s1\<lparr>files := (files s1)(interm_pdf E := None)\<rparr>)"
proof -
  have "files s1 (interm_pdf E) \<noteq> None"
    using try_body_keeps [OF assms(6)] assms(1) by (simp add: os_path_exists_def)
  then have rm: "os_remove (interm_pdf E) s1 = Inr (s1\<lparr>files := (files s1)(interm_pdf E := None)\<rparr>)"
    by (simp add: os_remove_def)
  have "generate_sheet E s tipo label out =
          (let (r, s1) = try_body E s (interm_pdf E) label r2 a5 out;
               r' = (case r of Inl e \<Rightarrow> Inl (RuntimeError (SheetFailed e)) | Inr u \<Rightarrow> Inr None)
           in case os_remove (interm_pdf E) s1 of Inl e \<Rightarrow> (Inl e, s1) | Inr s2 \<Rightarrow> (r', s2))"
    using assms(1-5) by (simp add: generate_sheet_def interm_pdf_def Let_def)
  then show ?thesis
    by (simp add: assms(6) rm)
qed

lemma registry_reads:
  assumes "dict_has envio_rects tipo"
  obtains r2 a5 where "rect2_of tipo = Inr r2" and "a5_rect2_of tipo = Inr a5"
  using assms registry_MercadoLibre registry_CorreoArg
  by (auto simp: dict_has_envio_rects)

lemma generate_sheet_removes_interm:
  assumes "os_path_exists s (interm_pdf E)" and "os_path_exists s label"
    and "dict_has envio_rects tipo"
  shows "\<not> os_path_exists (snd (generate_sheet E s tipo label out)) (interm_pdf E)"
proof -
  from assms(3) obtain r2 a5 where r: "rect2_of tipo = Inr r2" "a5_rect2_of tipo = Inr a5"
    by (rule registry_reads)
  obtain r s1 where t: "try_body E s (interm_pdf E) label r2 a5 out = (r, s1)"
    by (cases "try_body E s (interm_pdf E) label r2 a5 out")
  show ?thesis
    by (simp add: generate_sheet_known [OF assms(1,2) r assms(3) t] os_path_exists_def)
qed

lemma generate_sheet_success:
  assumes "generate_sheet E s tipo label out = (Inr None, s')"
  shows "dict_has envio_rects tipo \<and> os_path_exists s (interm_pdf E) \<and> os_path_exists s label \<and>
         (\<exists>r2 a5 pg. rect2_of tipo = Inr r2 \<and> a5_rect2_of tipo = Inr a5 \<and>
            compose_page E s (interm_pdf E) label r2 a5 = Inr pg \<and>
            s' = \<lparr>files = ((files s)(out \<mapsto> PdfFile [pg]))(interm_pdf E := None),
                  stdout = stdout s @ [PdfGenerated out]\<rparr>)"
proof -
  have e1: "os_path_exists s (interm_pdf E)"
    using assms by (auto simp: generate_sheet_def interm_pdf_def Let_def split: if_splits)
  have e2: "os_path_exists s label"
    using assms e1 by (auto simp: generate_sheet_def interm_pdf_def Let_def split: if_splits)
  have k: "dict_has envio_rects tipo"
    using assms e1 e2 by (auto simp: generate_sheet_def interm_pdf_def Let_def split: if_splits)
  from k obtain r2 a5 where r: "rect2_of tipo = Inr r2" "a5_rect2_of tipo = Inr a5"
    by (rule registry_reads)
  obtain r s1 where t: "try_body E s (interm_pdf E) label r2 a5 out = (r, s1)"
    by (cases "try_body E s (interm_pdf E) label r2 a5 out")
  have "(Inr (None :: bool option) :: exn + bool option, s') =
          ((case r of Inl e \<Rightarrow> Inl (RuntimeError (SheetFailed e)) | Inr u \<Rightarrow> Inr None),
           s1\<lparr>files := (files s1)(interm_pdf E := None)\<rparr>)"
    using assms generate_sheet_known [OF e1 e2 r k t] by simp
  then have res: "(case r of Inl e \<Rightarrow> Inl (RuntimeError (SheetFailed e)) | Inr u \<Rightarrow> Inr None) =
                    (Inr None :: exn + bool option)"
    and s': "s' = s1\<lparr>files := (files s1)(interm_pdf E := None)\<rparr>"
    by simp_all
  from res have "r = Inr ()"
    by (cases r) simp_all
  with try_body_cases [OF t] obtain pg where
    "compose_page E s (interm_pdf E) label r2 a5 = Inr pg"
    "s1 = \<lparr>files = (files s)(out \<mapsto> PdfFile [pg]), stdout = stdout s @ [PdfGenerated out]\<rparr>"
    by auto
  with s' r e1 e2 k show ?thesis by auto
qed

text \<open>
  C2, amended: whenever \<open>generate_sheet\<close> returns without an exception and without
  \<open>False\<close>, the files are those it was given, plus the output document, minus the promo
  document; the output document has exactly one page, 595 by 420, and the cut guide on it
  is the 140 segments that \<open>range(1, 419, 3)\<close> gives, one more than the 139 of
  \<open>floor((419 - 1) / 3)\<close>.
\<close>

theorem C2_one_page_140_segments:
  assumes "generate_sheet E s tipo_envio label_envio output_file = (Inr None, s')"
  shows "dict_has envio_rects tipo_envio \<and>
         os_path_exists s (interm_pdf E) \<and> os_path_exists s label_envio \<and>
         (\<exists>pg. files s' = ((files s)(output_file \<mapsto> PdfFile [pg]))(interm_pdf E := None) \<and>
               page_width pg = 595 \<and> page_height pg = 420 \<and>
               cut_guide pg = map segment (py_range y_start y_end 3) \<and>
               length (cut_guide pg) = 140)"
proof -
  from generate_sheet_success [OF assms] obtain r2 a5 pg where
    pre: "dict_has envio_rects tipo_envio" "os_path_exists s (interm_pdf E)"
      "os_path_exists s label_envio"
    and c: "compose_page E s (interm_pdf E) label_envio r2 a5 = Inr pg"
    and s': "s' = \<lparr>files = ((files s)(output_file \<mapsto> PdfFile [pg]))(interm_pdf E := None),
                  stdout = stdout s @ [PdfGenerated output_file]\<rparr>"
    by blast
  from compose_page_Inr [OF c] s' have
    "\<exists>pg. files s' = ((files s)(output_file \<mapsto> PdfFile [pg]))(interm_pdf E := None) \<and>
          page_width pg = 595 \<and> page_height pg = 420 \<and>
          cut_guide pg = map segment (py_range y_start y_end 3) \<and>
          length (cut_guide pg) = 140"
    by (auto simp: cut_guide_def cut_guide_count)
  with pre show ?thesis by blast
qed

lemma sample_paths [simp]:
  "interm_pdf sample_env = ''/app/tmp/interm.pdf''"
  "DATA_PATH sample_env = ''/app/data''"
  "MODEL_PATH sample_env = ''/app/model''"
  "OUT_PATH sample_env = ''/app/out''"
  "BASE_DIR sample_env = ''/app''"
  by (simp_all add: interm_pdf_def TEMP_PATH_def DATA_PATH_def MODEL_PATH_def OUT_PATH_def
        path_join_def sample_env_def)

lemma sample_no_fault: "fitz_fault sample_env c = None"
  by (simp add: sample_env_def)

lemma sample_extract:
  "extract_high_res_image sample_env a4_page (Rect a b c d) 260 q =
     Inr [nat \<lfloor>65 / 18 * rat_of_int (min 595 c - max 0 a)\<rfloor>,
          nat \<lfloor>65 / 18 * rat_of_int (min 842 d - max 0 b)\<rfloor>]"
  by (simp add: extract_high_res_image_def sample_env_def sample_get_pixmap_def Let_def
        a4_page_def Rect_def)

lemma sample_compose:
  "compose_page sample_env sample_state ''/app/tmp/interm.pdf'' sample_label
     (Rect 30 140 297 600) (Rect 297 10 595 440) = Inr sample_sheet"
proof -
  have o1: "open_document sample_env sample_state ''/app/tmp/interm.pdf'' = Inr [a4_page]"
    by (simp add: open_document_def sample_state_def sample_files_def sample_env_def)
  have o2: "open_document sample_env sample_state sample_label = Inr [a4_page]"
    by (simp add: open_document_def sample_state_def sample_files_def sample_env_def sample_label_def)
  have t: "\<not> os_path_exists sample_state (path_join ''/app/data'' ''tijera.png'')"
    by (simp add: os_path_exists_def sample_state_def sample_files_def path_join_def)
  show ?thesis
    unfolding compose_page_def
    by (simp add: o1 o2 t first_def new_page_def insert_image_def attempt_def sample_no_fault
          draw_lines_no_fault [of sample_env, OF sample_no_fault] sample_sheet_def
          sample_extract rect1_def floor_rat_numeral)
qed

lemma sample_stdout: "stdout sample_state = []"
  by (simp add: sample_state_def)

lemma sample_output_fresh: "sample_output \<noteq> ''/app/tmp/interm.pdf''"
  by (simp add: sample_output_def)

lemma sample_run:
  "generate_sheet sample_env sample_state ''MercadoLibre'' sample_label sample_output =
     (Inr None,
      \<lparr>files = ((files sample_state)(sample_output \<mapsto> PdfFile [sample_sheet]))
                  (''/app/tmp/interm.pdf'' := None),
       stdout = [PdfGenerated sample_output]\<rparr>)"
proof -
  have e1: "os_path_exists sample_state (interm_pdf sample_env)"
    by (simp add: os_path_exists_def sample_state_def sample_files_def)
  have e2: "os_path_exists sample_state sample_label"
    by (simp add: os_path_exists_def sample_state_def sample_files_def sample_label_def)
  have k: "dict_has envio_rects ''MercadoLibre''"
    by (simp add: dict_has_envio_rects)
  have t: "try_body sample_env sample_state (interm_pdf sample_env) sample_label
             (Rect 30 140 297 600) (Rect 297 10 595 440) sample_output =
           (Inr (), \<lparr>files = (files sample_state)(sample_output \<mapsto> PdfFile [sample_sheet]),
                     stdout = [PdfGenerated sample_output]\<rparr>)"
    by (simp add: try_body_def sample_compose save_def attempt_def sample_no_fault print_def
          sample_stdout)
  show ?thesis
    by (simp add: generate_sheet_known [OF e1 e2 registry_MercadoLibre(2,3) k t])
qed

text \<open>
  C2, as the claim states it, fails on the sample run: the run succeeds, the saved
  document has one page, and its cut guide has 140 segments, which is not
  \<open>floor((419 - 1) / 3) = 139\<close>.
\<close>

theorem C2_segment_count_is_not_139:
  "fst (generate_sheet sample_env sample_state ''MercadoLibre'' sample_label sample_output) = Inr None \<and>
   map (length \<circ> cut_guide)
     (saved_pages (snd (generate_sheet sample_env sample_state ''MercadoLibre'' sample_label sample_output))
        sample_output) = [140] \<and>
   (140 :: int) \<noteq> (419 - 1) div 3"
  by (simp add: sample_run saved_pages_def sample_output_fresh cut_guide_def sample_sheet_def
        cut_guide_count)

theorem C2_one_page_140_segments_witness:
  "generate_sheet sample_env sample_state ''MercadoLibre'' sample_label sample_output =
     (Inr None, snd (generate_sheet sample_env sample_state ''MercadoLibre'' sample_label sample_output)) \<and>
   dict_has envio_rects ''MercadoLibre'' \<and>
   os_path_exists sample_state (interm_pdf sample_env) \<and> os_path_exists sample_state sample_label \<and>
   (\<exists>pg. files (snd (generate_sheet sample_env sample_state ''MercadoLibre'' sample_label sample_output)) =
            ((files sample_state)(sample_output \<mapsto> PdfFile [pg]))(interm_pdf sample_env := None) \<and>
         page_width pg = 595 \<and> page_height pg = 420 \<and>
         cut_guide pg = map segment (py_range y_start y_end 3) \<and>
         length (cut_guide pg) = 140)"
proof -
  have h: "generate_sheet sample_env sample_state ''MercadoLibre'' sample_label sample_output =
     (Inr None, snd (generate_sheet sample_env sample_state ''MercadoLibre'' sample_label sample_output))"
    by (simp add: sample_run)
  show ?thesis
    using h C2_one_page_140_segments [OF h] by blast
qed

text \<open>
  C4, as the claim states it, fails where the promo document is missing: the check of
  line 77 comes before the check of the Category, and the call raises.
\<close>

theorem C4_raises_when_promo_missing:
  "\<not> dict_has envio_rects ''DHL'' \<and>
   fst (generate_sheet sample_env state_without_promo ''DHL'' sample_label sample_output) =
     Inl (RuntimeError (PromoNotFound ''/app/tmp/interm.pdf''))"
  by (simp add: dict_has_envio_rects generate_sheet_def Let_def os_path_exists_def
        state_without_promo_def TEMP_PATH_def path_join_def sample_env_def sample_label_def)

text \<open>
  C4, amended: for a Category that is not in the registry, \<open>generate_sheet\<close> leaves the
  files as they were; when both input documents exist it returns \<open>False\<close>, having
  printed the message of line 104, and raises nothing; when one is missing it raises the
  \<open>RuntimeError\<close> of line 78 or of line 82.
\<close>

theorem C4_unknown_tipo:
  assumes "\<not> dict_has envio_rects tipo_envio"
  shows "files (snd (generate_sheet E s tipo_envio label_envio output_file)) = files s \<and>
         (os_path_exists s (interm_pdf E) \<and> os_path_exists s label_envio \<longrightarrow>
            generate_sheet E s tipo_envio label_envio output_file =
              (Inr (Some False), s\<lparr>stdout := stdout s @ [TipoNotSupported tipo_envio]\<rparr>)) \<and>
         (\<not> os_path_exists s (interm_pdf E) \<longrightarrow>
            generate_sheet E s tipo_envio label_envio output_file =
              (Inl (RuntimeError (PromoNotFound (interm_pdf E))), s)) \<and>
         (os_path_exists s (interm_pdf E) \<and> \<not> os_path_exists s label_envio \<longrightarrow>
            generate_sheet E s tipo_envio label_envio output_file =
              (Inl (RuntimeError (LabelNotFound label_envio)), s))"
  using assms by (simp add: generate_sheet_def interm_pdf_def Let_def print_def)

theorem C4_unknown_tipo_witness:
  "\<not> dict_has envio_rects ''DHL'' \<and>
   os_path_exists sample_state (interm_pdf sample_env) \<and> os_path_exists sample_state sample_label \<and>
   files (snd (generate_sheet sample_env sample_state ''DHL'' sample_label sample_output)) =
     files sample_state \<and>
   generate_sheet sample_env sample_state ''DHL'' sample_label sample_output =
     (Inr (Some False), sample_state\<lparr>stdout := stdout sample_state @ [TipoNotSupported ''DHL'']\<rparr>)"
proof -
  have h: "\<not> dict_has envio_rects ''DHL''"
    by (simp add: dict_has_envio_rects)
  have e1: "os_path_exists sample_state (interm_pdf sample_env)"
    by (simp add: os_path_exists_def sample_state_def sample_files_def)
  have e2: "os_path_exists sample_state sample_label"
    by (simp add: os_path_exists_def sample_state_def sample_files_def sample_label_def)
  show ?thesis
    using h e1 e2 C4_unknown_tipo [OF h, of sample_env sample_state sample_label sample_output]
    by simp
qed

text \<open>
  C5 fails on the code: with both documents present and a Category that is not in the
  registry, \<open>generate_sheet\<close> returns \<open>False\<close> at line 105, before the \<open>try\<close> whose
  \<open>finally\<close> removes the promo document, and \<open>tmp/interm.pdf\<close> is still there. (On
  the paths through the \<open>try\<close> it is removed: \<open>generate_sheet_removes_interm\<close>.)
\<close>

theorem C5_unknown_tipo_keeps_interm:
  "os_path_exists sample_state ''/app/tmp/interm.pdf'' \<and>
   fst (generate_sheet sample_env sample_state ''DHL'' sample_label sample_output) = Inr (Some False) \<and>
   os_path_exists (snd (generate_sheet sample_env sample_state ''DHL'' sample_label sample_output))
     ''/app/tmp/interm.pdf''"
  by (simp add: dict_has_envio_rects generate_sheet_def Let_def os_path_exists_def print_def
        sample_state_def sample_files_def TEMP_PATH_def path_join_def sample_env_def sample_label_def)

section \<open>The classifier\<close>

lemma sample_scan_text:
  "joined_text sample_env ''/app/scan-1.pdf'' = Inr '' ''"
  by (simp add: joined_text_def sample_env_def sample_plumber_open_def)

lemma strip_blank: "strip '' '' = []"
  by (simp add: strip_def is_space_def)

lemma predict_pdf_blank:
  assumes "joined_text E pdf_path = Inr text" and "strip text = []"
  shows "predict_pdf E pdf_path =
           Inl (RuntimeError (PredictionFailed pdf_path
                  (case load_artifacts E of
                     Inl e \<Rightarrow> e
                   | Inr a \<Rightarrow> RuntimeError (NoValidText pdf_path))))"
  using assms
  by (cases "load_artifacts E") (auto simp: predict_pdf_def Let_def split: prod.splits)

text \<open>
  C3, as the claim states it, fails where the model files are missing: the three loads
  of lines 58 to 60 come before the text is read, and the error raised is the one of
  line 62 (re-raised by line 79), not the one about the empty text.
\<close>

theorem C3_blank_text_without_model:
  "joined_text env_without_model ''/app/scan-1.pdf'' = Inr '' '' \<and> strip '' '' = [] \<and>
   predict_pdf env_without_model ''/app/scan-1.pdf'' =
     Inl (RuntimeError (PredictionFailed ''/app/scan-1.pdf''
            (RuntimeError (ArtifactsNotLoaded FileNotFoundError))))"
proof -
  have j: "joined_text env_without_model ''/app/scan-1.pdf'' = Inr '' ''"
    by (simp add: joined_text_def env_without_model_def sample_env_def sample_plumber_open_def)
  have l: "load_artifacts env_without_model = Inl (RuntimeError (ArtifactsNotLoaded FileNotFoundError))"
    by (simp add: load_artifacts_def env_without_model_def)
  show ?thesis
    by (simp add: j strip_blank predict_pdf_blank [OF j strip_blank] l)
qed

text \<open>
  C3, amended: for a document whose joined page text is empty after \<open>strip\<close>,
  \<open>predict_pdf\<close> never returns a Category: it raises the \<open>RuntimeError\<close> of line 79,
  which wraps the error about the empty text (line 70) whenever the three artifacts
  load, and the error of the load otherwise.
\<close>

theorem C3_blank_text_never_classified:
  assumes "joined_text E pdf_path = Inr text" and "strip text = []"
  shows "(\<exists>e. predict_pdf E pdf_path = Inl (RuntimeError (PredictionFailed pdf_path e))) \<and>
         (\<forall>a. load_artifacts E = Inr a \<longrightarrow>
            predict_pdf E pdf_path =
              Inl (RuntimeError (PredictionFailed pdf_path (RuntimeError (NoValidText pdf_path))))) \<and>
         (\<forall>e. load_artifacts E = Inl e \<longrightarrow>
            predict_pdf E pdf_path = Inl (RuntimeError (PredictionFailed pdf_path e)))"
  by (simp add: predict_pdf_blank [OF assms])

theorem C3_blank_text_never_classified_witness:
  "joined_text sample_env ''/app/scan-1.pdf'' = Inr '' '' \<and> strip '' '' = [] \<and>
   load_artifacts sample_env =
     Inr (Artifact ''/app/model/modelo_svm.pkl'', Artifact ''/app/model/vectorizer.pkl'',
          Artifact ''/app/model/label_encoder.pkl'') \<and>
   predict_pdf sample_env ''/app/scan-1.pdf'' =
     Inl (RuntimeError (PredictionFailed ''/app/scan-1.pdf''
            (RuntimeError (NoValidText ''/app/scan-1.pdf''))))"
proof -
  have l: "load_artifacts sample_env =
     Inr (Artifact ''/app/model/modelo_svm.pkl'', Artifact ''/app/model/vectorizer.pkl'',
          Artifact ''/app/model/label_encoder.pkl'')"
    by (simp add: load_artifacts_def sample_env_def MODEL_PATH_def path_join_def)
  show ?thesis
    using C3_blank_text_never_classified [OF sample_scan_text strip_blank] l
    by (simp add: sample_scan_text strip_blank)
qed

lemma sample_predict:
  "predict_pdf sample_env ''/app/meli-123456.pdf'' = Inr ''MercadoLibre''"
  by (simp add: predict_pdf_def load_artifacts_def joined_text_def sample_env_def
        sample_plumber_open_def strip_def is_space_def first_def Let_def)

section \<open>Discover\<close>

lemma endswith_append:
  assumes "endswith f suffix"
  obtains stem where "f = stem @ suffix"
proof
  from assms have "drop (length f - length suffix) f = suffix"
    by (simp add: endswith_def)
  then show "f = take (length f - length suffix) f @ suffix"
    by (metis append_take_drop_id)
qed

lemma rsplit1_pdf: "rsplit1 (CHR ''.'') (stem @ ''.pdf'') = [stem, ''pdf'']"
  by (simp add: rsplit1_def)

lemma split1_found:
  assumes "c \<in> set s"
  obtains a b where "split1 c s = [a, b]" and "s = a @ c # b" and "c \<notin> set a"
proof
  let ?a = "takeWhile (\<lambda>x. x \<noteq> c) s" and ?d = "dropWhile (\<lambda>x. x \<noteq> c) s"
  show "split1 c s = [?a, tl ?d]"
    using assms by (simp add: split1_def)
  from assms have "?d \<noteq> []" by auto
  moreover from this have "hd ?d = c"
    using hd_dropWhile [of "\<lambda>x. x \<noteq> c" s] by simp
  ultimately have "?d = c # tl ?d"
    by (cases ?d) simp_all
  then show "s = ?a @ c # tl ?d"
    by (metis takeWhile_dropWhile_id)
  show "c \<notin> set ?a"
    by (auto dest: set_takeWhileD)
qed

lemma filter_first:
  assumes "filter P xs \<noteq> []"
  obtains before x after where "xs = before @ x # after" and "\<forall>y \<in> set before. \<not> P y"
    and "P x" and "first (filter P xs) = Inr x"
proof -
  from assms obtain x rest where f: "filter P xs = x # rest"
    by (cases "filter P xs") auto
  then obtain before after where "xs = before @ x # after" "\<forall>y \<in> set before. \<not> P y" "P x"
    by (auto simp: filter_eq_Cons_iff)
  moreover have "first (filter P xs) = Inr x"
    by (simp add: f first_def)
  ultimately show ?thesis
    using that by blast
qed

text \<open>
  C9: given the listing of the base directory, when no name ends in \<open>.pdf\<close> and
  contains a hyphen the step raises the \<open>RuntimeError\<close> of line 118; otherwise it
  takes the first such name of the listing, and the name is the medium token, a hyphen,
  the order token and \<open>.pdf\<close>, with no hyphen in the medium token: the name without its
  extension, split at its first hyphen.
\<close>

theorem C9_discover:
  assumes "listdir E (BASE_DIR E) = Inr names"
  shows "(filter is_input_name names = [] \<longrightarrow> discover E = Inl (RuntimeError NoInputFound)) \<and>
         (filter is_input_name names \<noteq> [] \<longrightarrow>
            (\<exists>file medio_venta num_orden before after.
               names = before @ file # after \<and> (\<forall>n \<in> set before. \<not> is_input_name n) \<and>
               is_input_name file \<and>
               file = medio_venta @ ''-'' @ num_orden @ ''.pdf'' \<and>
               CHR ''-'' \<notin> set medio_venta \<and>
               discover E =
                 Inr (file, medio_venta, num_orden, path_join (BASE_DIR E) file,
                      path_join (OUT_PATH E) (medio_venta @ num_orden @ ''.pdf''))))"
proof (intro conjI impI)
  assume "filter is_input_name names = []"
  then show "discover E = Inl (RuntimeError NoInputFound)"
    using assms by (simp add: discover_def)
next
  assume ne: "filter is_input_name names \<noteq> []"
  then obtain before chosen after where
    names: "names = before @ chosen # after" and before: "\<forall>n \<in> set before. \<not> is_input_name n"
    and chosen: "is_input_name chosen" and fst: "first (filter is_input_name names) = Inr chosen"
    by (rule filter_first)
  from chosen obtain stem where stem: "chosen = stem @ ''.pdf''"
    by (auto simp: is_input_name_def elim: endswith_append)
  with chosen have "CHR ''-'' \<in> set stem"
    by (auto simp: is_input_name_def char_in_def)
  then obtain medio_venta num_orden where
    sp: "split1 (CHR ''-'') stem = [medio_venta, num_orden]"
    and st: "stem = medio_venta @ CHR ''-'' # num_orden" and m: "CHR ''-'' \<notin> set medio_venta"
    by (rule split1_found)
  have "discover E =
          Inr (chosen, medio_venta, num_orden, path_join (BASE_DIR E) chosen,
               path_join (OUT_PATH E) (medio_venta @ num_orden @ ''.pdf''))"
    using assms ne fst
    by (simp add: discover_def Let_def stem rsplit1_pdf first_def sp)
  with names before chosen stem st m show
    "\<exists>file medio_venta num_orden before after.
       names = before @ file # after \<and> (\<forall>n \<in> set before. \<not> is_input_name n) \<and>
       is_input_name file \<and>
       file = medio_venta @ ''-'' @ num_orden @ ''.pdf'' \<and>
       CHR ''-'' \<notin> set medio_venta \<and>
       discover E =
         Inr (file, medio_venta, num_orden, path_join (BASE_DIR E) file,
              path_join (OUT_PATH E) (medio_venta @ num_orden @ ''.pdf''))"
    by (intro exI [of _ chosen] exI [of _ medio_venta] exI [of _ num_orden]
          exI [of _ before] exI [of _ after]) simp
qed

theorem C9_discover_witness:
  "listdir sample_env (BASE_DIR sample_env) =
     Inr [''notes.txt'', ''meli-123456.pdf'', ''correo-987654.pdf''] \<and>
   filter is_input_name [''notes.txt'', ''meli-123456.pdf'', ''correo-987654.pdf''] =
     [''meli-123456.pdf'', ''correo-987654.pdf''] \<and>
   discover sample_env =
     Inr (''meli-123456.pdf'', ''meli'', ''123456'', ''/app/meli-123456.pdf'',
          ''/app/out/meli123456.pdf'') \<and>
   listdir env_without_input (BASE_DIR env_without_input) =
     Inr [''notes.txt'', ''flyer.pdf'', ''a-b.txt''] \<and>
   filter is_input_name [''notes.txt'', ''flyer.pdf'', ''a-b.txt''] = [] \<and>
   discover env_without_input = Inl (RuntimeError NoInputFound)"
proof -
  have l1: "listdir sample_env (BASE_DIR sample_env) =
              Inr [''notes.txt'', ''meli-123456.pdf'', ''correo-987654.pdf'']"
    by (simp add: sample_env_def sample_listdir_def)
  have f1: "filter is_input_name [''notes.txt'', ''meli-123456.pdf'', ''correo-987654.pdf''] =
              [''meli-123456.pdf'', ''correo-987654.pdf'']"
    by (simp add: is_input_name_def endswith_def char_in_def)
  have l2: "listdir env_without_input (BASE_DIR env_without_input) =
              Inr [''notes.txt'', ''flyer.pdf'', ''a-b.txt'']"
    by (simp add: env_without_input_def)
  have f2: "filter is_input_name [''notes.txt'', ''flyer.pdf'', ''a-b.txt''] = []"
    by (simp add: is_input_name_def endswith_def char_in_def)
  have d1: "discover sample_env =
     Inr (''meli-123456.pdf'', ''meli'', ''123456'', ''/app/meli-123456.pdf'',
          ''/app/out/meli123456.pdf'')"
    by (simp add: discover_def Let_def first_def rsplit1_def split1_def path_join_def
          OUT_PATH_def sample_env_def sample_listdir_def is_input_name_def endswith_def
          char_in_def)
  have d2: "discover env_without_input = Inl (RuntimeError NoInputFound)"
    using C9_discover [OF l2] unfolding f2 by simp
  show ?thesis
    by (intro conjI) (rule l1 f1 d1 l2 f2 d2)+
qed

section \<open>Training\<close>














section \<open>The region extractor\<close>

lemma extract_Inl:
  assumes "extract_high_res_image E pg rect dpi quality = Inl e"
  shows "get_pixmap E pg (of_int dpi / 72, of_int dpi / 72) rect = Inl e \<or>
         (\<exists>pix. get_pixmap E pg (of_int dpi / 72, of_int dpi / 72) rect = Inr pix \<and>
            ((if 3 < pix_n pix then to_rgb E pix else Inr pix) = Inl e \<or>
             (\<exists>pix'. (if 3 < pix_n pix then to_rgb E pix else Inr pix) = Inr pix' \<and>
                (frombytes E (pix_width pix', pix_height pix') (pix_samples pix') = Inl e \<or>
                 (\<exists>img. frombytes E (pix_width pix', pix_height pix') (pix_samples pix') = Inr img \<and>
                    jpeg_save E img quality = Inl e)))))"
proof (cases "get_pixmap E pg (of_int dpi / 72, of_int dpi / 72) rect")
  case (Inl a)
  with assms show ?thesis
    by (simp add: extract_high_res_image_def Let_def)
next
  case (Inr pix)
  show ?thesis
  proof (cases "if 3 < pix_n pix then to_rgb E pix else Inr pix")
    case (Inl a)
    with assms Inr show ?thesis
      by (simp add: extract_high_res_image_def Let_def)
  next
    case conv: (Inr pix')
    show ?thesis
    proof (cases "frombytes E (pix_width pix', pix_height pix') (pix_samples pix')")
      case (Inl a)
      with assms Inr conv show ?thesis
        by (simp add: extract_high_res_image_def Let_def)
    next
      case img: (Inr img)
      with assms Inr conv have "jpeg_save E img quality = Inl e"
        by (simp add: extract_high_res_image_def Let_def)
      with Inr conv img show ?thesis
        by blast
    qed
  qed
qed

lemma extract_Inr:
  assumes "get_pixmap E pg (of_int dpi / 72, of_int dpi / 72) rect = Inr pix"
    and "(if 3 < pix_n pix then to_rgb E pix else Inr pix) = Inr pix'"
    and "frombytes E (pix_width pix', pix_height pix') (pix_samples pix') = Inr img"
    and "jpeg_save E img quality = Inr bytes"
  shows "extract_high_res_image E pg rect dpi quality = Inr bytes"
  using assms by (simp add: extract_high_res_image_def Let_def)

lemma generate_sheet_no_page:
  assumes e1: "os_path_exists s (interm_pdf E)" and e2: "os_path_exists s label_envio"
    and k: "dict_has envio_rects tipo_envio"
    and o: "open_document E s (interm_pdf E) = Inr []"
  shows "generate_sheet E s tipo_envio label_envio output_file =
           (Inl (RuntimeError (SheetFailed IndexError)),
            s\<lparr>files := (files s)(interm_pdf E := None)\<rparr>)"
proof -
  from k obtain r2 a5 where r: "rect2_of tipo_envio = Inr r2" "a5_rect2_of tipo_envio = Inr a5"
    by (rule registry_reads)
  have c: "compose_page E s (interm_pdf E) label_envio r2 a5 = Inl IndexError"
    by (simp add: compose_page_def o first_def)
  have t: "try_body E s (interm_pdf E) label_envio r2 a5 output_file = (Inl IndexError, s)"
    by (simp add: try_body_def c)
  show ?thesis
    by (simp add: generate_sheet_known [OF e1 e2 r k t])
qed

text \<open>
  C6, as the claim states it, fails: with a renderer that clips to the page, as PyMuPDF
  does, a rectangle that reaches below the page gives no error but the image of the
  clipped rectangle.
\<close>

theorem C6_out_of_bounds_rect_is_clipped:
  "\<not> within_page a4_page (Rect 30 140 297 900) \<and>
   extract_high_res_image sample_env a4_page (Rect 30 140 297 900) 260 75 = Inr [964, 2535] \<and>
   extract_high_res_image sample_env a4_page (Rect 30 140 297 842) 260 75 = Inr [964, 2535]"
proof -
  have "\<not> within_page a4_page (Rect 30 140 297 900)"
    by (simp add: within_page_def a4_page_def Rect_def)
  then show ?thesis
    by (simp add: sample_extract floor_rat_numeral)
qed

text \<open>
  C6, amended: \<open>extract_high_res_image\<close> takes a page, not a page index, and has no
  check of its own. It raises only what one of its four library calls raises, and it
  returns the encoded image whenever they return, whatever the rectangle. A document
  without a first page is met by the caller, at \<open>doc1[0]\<close> in \<open>generate_sheet\<close>, whose
  \<open>IndexError\<close> is re-raised as the \<open>RuntimeError\<close> of line 150.
\<close>

theorem C6_extract_has_no_check:
  "(extract_high_res_image E pg rect dpi quality = Inl e \<longrightarrow>
      get_pixmap E pg (of_int dpi / 72, of_int dpi / 72) rect = Inl e \<or>
      (\<exists>pix. get_pixmap E pg (of_int dpi / 72, of_int dpi / 72) rect = Inr pix \<and>
         ((if 3 < pix_n pix then to_rgb E pix else Inr pix) = Inl e \<or>
          (\<exists>pix'. (if 3 < pix_n pix then to_rgb E pix else Inr pix) = Inr pix' \<and>
             (frombytes E (pix_width pix', pix_height pix') (pix_samples pix') = Inl e \<or>
              (\<exists>img. frombytes E (pix_width pix', pix_height pix') (pix_samples pix') = Inr img \<and>
                 jpeg_save E img quality = Inl e)))))) \<and>
   (get_pixmap E pg (of_int dpi / 72, of_int dpi / 72) rect = Inr pix0 \<and>
    (if 3 < pix_n pix0 then to_rgb E pix0 else Inr pix0) = Inr pix1 \<and>
    frombytes E (pix_width pix1, pix_height pix1) (pix_samples pix1) = Inr img0 \<and>
    jpeg_save E img0 quality = Inr bytes \<longrightarrow>
      extract_high_res_image E pg rect dpi quality = Inr bytes) \<and>
   (os_path_exists s (interm_pdf E) \<and> os_path_exists s label_envio \<and>
    dict_has envio_rects tipo_envio \<and> open_document E s (interm_pdf E) = Inr [] \<longrightarrow>
      generate_sheet E s tipo_envio label_envio output_file =
        (Inl (RuntimeError (SheetFailed IndexError)),
         s\<lparr>files := (files s)(interm_pdf E := None)\<rparr>))"
  using extract_Inl extract_Inr generate_sheet_no_page by blast


theorem C6_extract_has_no_check_witness:
  "extract_high_res_image env_failing_render a4_page (Rect 30 140 297 900) 260 75 =
     Inl (OtherError ''render'') \<and>
   get_pixmap env_failing_render a4_page (of_int 260 / 72, of_int 260 / 72) (Rect 30 140 297 900) =
     Inl (OtherError ''render'') \<and>
   get_pixmap sample_env a4_page (of_int 260 / 72, of_int 260 / 72) (Rect 30 140 297 900) =
     Inr \<lparr>pix_n = 3, pix_width = 964, pix_height = 2535, pix_samples = []\<rparr> \<and>
   extract_high_res_image sample_env a4_page (Rect 30 140 297 900) 260 75 = Inr [964, 2535] \<and>
   os_path_exists state_empty_promo (interm_pdf sample_env) \<and>
   os_path_exists state_empty_promo sample_label \<and>
   dict_has envio_rects ''MercadoLibre'' \<and>
   open_document sample_env state_empty_promo (interm_pdf sample_env) = Inr [] \<and>
   generate_sheet sample_env state_empty_promo ''MercadoLibre'' sample_label sample_output =
     (Inl (RuntimeError (SheetFailed IndexError)),
      state_empty_promo\<lparr>files := (files state_empty_promo)(interm_pdf sample_env := None)\<rparr>)"
proof -
  let ?r = "Rect 30 140 297 900"
  let ?pix = "\<lparr>pix_n = 3, pix_width = 964, pix_height = 2535, pix_samples = []\<rparr>"
  have x: "extract_high_res_image env_failing_render a4_page ?r 260 75 = Inl (OtherError ''render'')"
    by (simp add: extract_high_res_image_def env_failing_render_def Let_def)
  have g0: "get_pixmap env_failing_render a4_page (of_int 260 / 72, of_int 260 / 72) ?r =
              Inl (OtherError ''render'')"
    using x C6_extract_has_no_check [of env_failing_render a4_page ?r 260 75 "OtherError ''render''"]
    by (simp add: env_failing_render_def)
  have g: "get_pixmap sample_env a4_page (of_int 260 / 72, of_int 260 / 72) ?r = Inr ?pix"
    by (simp add: sample_env_def sample_get_pixmap_def Let_def a4_page_def Rect_def
          floor_rat_numeral)
  have c: "(if 3 < pix_n ?pix then to_rgb sample_env ?pix else Inr ?pix) = Inr ?pix"
    by simp
  have f: "frombytes sample_env (pix_width ?pix, pix_height ?pix) (pix_samples ?pix) =
             Inr ((964, 2535), [])"
    by (simp add: sample_env_def)
  have j: "jpeg_save sample_env ((964, 2535), []) 75 = Inr [964, 2535]"
    by (simp add: sample_env_def)
  have e1: "os_path_exists state_empty_promo (interm_pdf sample_env)"
    by (simp add: os_path_exists_def state_empty_promo_def)
  have e2: "os_path_exists state_empty_promo sample_label"
    by (simp add: os_path_exists_def state_empty_promo_def sample_label_def)
  have k: "dict_has envio_rects ''MercadoLibre''"
    by (simp add: dict_has_envio_rects)
  have o: "open_document sample_env state_empty_promo (interm_pdf sample_env) = Inr []"
    by (simp add: open_document_def state_empty_promo_def) (simp add: sample_env_def)
  note t = C6_extract_has_no_check [of sample_env a4_page ?r 260 75 _ ?pix ?pix
      "((964, 2535), [])" "[964, 2535]" state_empty_promo sample_label "''MercadoLibre''"
      sample_output]
  from t g c f j have y: "extract_high_res_image sample_env a4_page ?r 260 75 = Inr [964, 2535]"
    by blast
  from t e1 e2 k o have z:
    "generate_sheet sample_env state_empty_promo ''MercadoLibre'' sample_label sample_output =
       (Inl (RuntimeError (SheetFailed IndexError)),
        state_empty_promo\<lparr>files := (files state_empty_promo)(interm_pdf sample_env := None)\<rparr>)"
    by blast
  show ?thesis
    by (intro conjI) (rule x g0 g y e1 e2 k o z)+
qed

end
